theory Spec2Isabelle
  imports Complex_Main "HOL-Library.List_Lexorder" "HOL-Library.Char_ord"
begin

section \<open>The layout-difference engine of lytest (kdb_xor.py)\<close>

text \<open>
  A shallow embedding of \<^verbatim>\<open>src/lytest/kdb_xor.py\<close>: the import-time engine detection,
  the in-process comparison \<^verbatim>\<open>run_xor\<close>, the external-process comparison
  \<^verbatim>\<open>run_xor_pya\<close> and the polygon-boolean comparison \<^verbatim>\<open>run_xor_phidl\<close>.

  The geometry libraries (klayout.db, phidl, gdspy) and the operating system
  (\<^verbatim>\<open>subprocess.check_output\<close>) are not part of the repository: their operations are
  parameters of the model. Every exception of the source is a value of \<open>error\<close>, every
  \<^verbatim>\<open>print\<close> a line of the returned output.
\<close>

subsection \<open>Errors, messages and printed lines\<close>

text \<open>A layer is identified by its (number, datatype) pair.\<close>

type_synonym layer_info = "int \<times> int"

text \<open>
  The four messages that \<^verbatim>\<open>GeometryDifference\<close> is raised with. A message records the
  format string (the constructor) and the arguments of \<^verbatim>\<open>format\<close>, in order:
  \<^item> \<^verbatim>\<open>"Layer {} of layout {} not present in layout {}."\<close>
  \<^item> \<^verbatim>\<open>"Missing topcell on one of the layouts, or name differs:\n{}\n{}"\<close>
  \<^item> \<^verbatim>\<open>"Database unit of layout {} ({}) differs from that of layout {} ({})."\<close>
  \<^item> \<^verbatim>\<open>"Differences found between layouts {} and {}"\<close>
\<close>

datatype message =
    Layer_not_present layer_info string string
  | Missing_topcell "string list" "string list"
  | Database_unit_differs string real string real
  | Differences_found string string

datatype pyval = PyInt int | PyStr string

text \<open>
  The exception classes the module can raise or let through. \<open>GeometryDifference\<close> is the
  only class the module defines. \<open>FileNotFoundError\<close> carries its \<^verbatim>\<open>args\<close> tuple,
  \<open>CalledProcessError\<close> the return code; \<open>LibraryError\<close> is any other exception of a
  library call (a file that cannot be read, for one).
\<close>

datatype error =
    GeometryDifference message
  | FileNotFoundError "pyval list"
  | CalledProcessError int
  | AttributeError
  | IndexError
  | LibraryError string

datatype stdout_line =
    Print_differences nat string layer_info
  | Print_no_differences string layer_info
  | Print_error error

subsection \<open>The klayout.db interface\<close>

text \<open>
  A top cell: its name, and for each layer index the region of all shapes under it,
  gathered recursively (\<^verbatim>\<open>kdb.Region(tc.begin_shapes_rec(ll))\<close>).
\<close>

record 'r cell =
  cell_name :: string
  begin_shapes_rec :: "nat \<Rightarrow> 'r"

record 'r layout =
  layer_indices :: "nat list"
  get_info :: "nat \<Rightarrow> layer_info"
  top_cells :: "'r cell list"
  dbu :: real

text \<open>
  The library operations \<^verbatim>\<open>run_xor\<close> calls: reading a file into a fresh layout,
  \<^verbatim>\<open>r1 ^ r2\<close>, \<^verbatim>\<open>r.size(d)\<close>, \<^verbatim>\<open>r.is_empty()\<close> and the polygon count
  \<^verbatim>\<open>r.size()\<close>.
\<close>

record 'r kdb =
  Layout_read :: "string \<Rightarrow> error + 'r layout"
  Region_xor :: "'r \<Rightarrow> 'r \<Rightarrow> 'r"
  Region_size :: "'r \<Rightarrow> int \<Rightarrow> 'r"
  Region_is_empty :: "'r \<Rightarrow> bool"
  Region_count :: "'r \<Rightarrow> nat"

text \<open>\<^verbatim>\<open>l.find_layer(info)\<close>: the index of the layer with these properties, or None.\<close>

definition find_layer :: "'r layout \<Rightarrow> layer_info \<Rightarrow> nat option" where
  "find_layer l info = find (\<lambda>i. get_info l i = info) (layer_indices l)"

text \<open>
  \<^verbatim>\<open>l.cell(name)\<close>: the cell of that name, or None. Only top cells are modelled: the
  comparison looks up the names of top cells only, and a cell name is unique in a layout.
\<close>

definition layout_cell :: "'r layout \<Rightarrow> string \<Rightarrow> 'r cell option" where
  "layout_cell l n = find (\<lambda>c. cell_name c = n) (top_cells l)"

subsection \<open>run_xor: the in-process comparison\<close>

text \<open>
  Lines 30-36 and 38-42: every layer of \<open>la\<close> must be found in \<open>lb\<close>. The first loop
  collects the index pairs; the second loop is the same with the layouts exchanged and
  its pairs dropped.
\<close>

fun layer_check ::
  "'r layout \<Rightarrow> 'r layout \<Rightarrow> string \<Rightarrow> string \<Rightarrow> nat list \<Rightarrow> error + (nat \<times> nat) list" where
  "layer_check la lb filea fileb [] = Inr []"
| "layer_check la lb filea fileb (lla # rest) =
    (case find_layer lb (get_info la lla) of
       None \<Rightarrow> Inl (GeometryDifference (Layer_not_present (get_info la lla) filea fileb))
     | Some llb \<Rightarrow>
        (case layer_check la lb filea fileb rest of
           Inl e \<Rightarrow> Inl e
         | Inr pairs \<Rightarrow> Inr ((lla, llb) # pairs)))"

text \<open>Lines 63-69: the XOR of the two regions, shrunk by the tolerance when it is positive.\<close>

definition rxor_of :: "'r kdb \<Rightarrow> int \<Rightarrow> 'r cell \<Rightarrow> 'r cell \<Rightarrow> nat \<times> nat \<Rightarrow> 'r" where
  "rxor_of k tolerance tc1 tc2 p =
    (let r1 = begin_shapes_rec tc1 (fst p);
         r2 = begin_shapes_rec tc2 (snd p);
         rxor = Region_xor k r1 r2
     in if tolerance > 0 then Region_size k rxor (- tolerance) else rxor)"

text \<open>Lines 71-77: what one (cell, layer) pair prints when verbose.\<close>

definition pair_line :: "'r kdb \<Rightarrow> 'r layout \<Rightarrow> int \<Rightarrow> 'r cell \<Rightarrow> 'r cell \<Rightarrow> nat \<times> nat \<Rightarrow> stdout_line" where
  "pair_line k l1 tolerance tc1 tc2 p =
    (let rxor = rxor_of k tolerance tc1 tc2 p
     in if \<not> Region_is_empty k rxor
        then Print_differences (Region_count k rxor) (cell_name tc1) (get_info l1 (fst p))
        else Print_no_differences (cell_name tc1) (get_info l1 (fst p)))"

text \<open>Lines 62-77: the inner loop over the layer pairs; the state is (diff, output).\<close>

fun layer_loop ::
  "'r kdb \<Rightarrow> 'r layout \<Rightarrow> int \<Rightarrow> bool \<Rightarrow> 'r cell \<Rightarrow> 'r cell \<Rightarrow> (nat \<times> nat) list \<Rightarrow>
   bool \<times> stdout_line list \<Rightarrow> bool \<times> stdout_line list" where
  "layer_loop k l1 tolerance verbose tc1 tc2 [] st = st"
| "layer_loop k l1 tolerance verbose tc1 tc2 (p # ps) st =
    (let rxor = rxor_of k tolerance tc1 tc2 p;
         out = (if verbose then snd st @ [pair_line k l1 tolerance tc1 tc2 p] else snd st)
     in if \<not> Region_is_empty k rxor
        then layer_loop k l1 tolerance verbose tc1 tc2 ps (True, out)
        else layer_loop k l1 tolerance verbose tc1 tc2 ps (fst st, out))"

text \<open>
  Lines 61-77: the outer loop over the top-cell pairs. A pair holding None (a name that
  \<^verbatim>\<open>cell\<close> did not find) raises AttributeError at the first layer pair.
\<close>

fun cell_loop ::
  "'r kdb \<Rightarrow> 'r layout \<Rightarrow> int \<Rightarrow> bool \<Rightarrow> (nat \<times> nat) list \<Rightarrow>
   ('r cell option \<times> 'r cell option) list \<Rightarrow> bool \<times> stdout_line list \<Rightarrow>
   stdout_line list \<times> (error + bool)" where
  "cell_loop k l1 tolerance verbose layer_pairs [] st = (snd st, Inr (fst st))"
| "cell_loop k l1 tolerance verbose layer_pairs (tcp # tcps) st =
    (if layer_pairs = [] then cell_loop k l1 tolerance verbose layer_pairs tcps st
     else (case tcp of
             (Some tc1, Some tc2) \<Rightarrow>
               cell_loop k l1 tolerance verbose layer_pairs tcps
                 (layer_loop k l1 tolerance verbose tc1 tc2 layer_pairs st)
           | _ \<Rightarrow> (snd st, Inl AttributeError)))"

text \<open>Lines 22-80.\<close>

definition run_xor ::
  "'r kdb \<Rightarrow> string \<Rightarrow> string \<Rightarrow> int \<Rightarrow> bool \<Rightarrow> stdout_line list \<times> (error + unit)" where
  "run_xor k file1 file2 tolerance verbose =
    (case Layout_read k file1 of
       Inl e \<Rightarrow> ([], Inl e)
     | Inr l1 \<Rightarrow>
    (case Layout_read k file2 of
       Inl e \<Rightarrow> ([], Inl e)
     | Inr l2 \<Rightarrow>
    (case layer_check l1 l2 file1 file2 (layer_indices l1) of
       Inl e \<Rightarrow> ([], Inl e)
     | Inr layer_pairs \<Rightarrow>
    (case layer_check l2 l1 file2 file1 (layer_indices l2) of
       Inl e \<Rightarrow> ([], Inl e)
     | Inr _ \<Rightarrow>
    (let tc1_names = sort (map cell_name (top_cells l1));
         tc2_names = sort (map cell_name (top_cells l2))
     in if tc1_names \<noteq> tc2_names
        then ([], Inl (GeometryDifference (Missing_topcell tc1_names tc2_names)))
        else
    (let topcell_pairs = map (\<lambda>n. (layout_cell l1 n, layout_cell l2 n)) tc1_names
     in if dbu l1 - dbu l2 > 1 / 10 ^ 6
        then ([], Inl (GeometryDifference
                (Database_unit_differs file1 (dbu l1) file2 (dbu l2))))
        else
    (case cell_loop k l1 tolerance verbose layer_pairs topcell_pairs (False, []) of
       (out, Inl e) \<Rightarrow> (out, Inl e)
     | (out, Inr diff) \<Rightarrow>
         if diff then (out, Inl (GeometryDifference (Differences_found file1 file2)))
         else (out, Inr ()))))))))"

subsection \<open>run_xor_pya: the external-process comparison\<close>

text \<open>\<^verbatim>\<open>str\<close> of an integer, in decimal.\<close>

fun str_nat :: "nat \<Rightarrow> string" where
  "str_nat n =
    (if n < 10 then [char_of (48 + n)]
     else str_nat (n div 10) @ [char_of (48 + n mod 10)])"

definition str_int :: "int \<Rightarrow> string" where
  "str_int i = (if i < 0 then CHR ''-'' # str_nat (nat (- i)) else str_nat (nat i))"

definition str_pyval :: "pyval \<Rightarrow> string" where
  "str_pyval v = (case v of PyInt i \<Rightarrow> str_int i | PyStr s \<Rightarrow> s)"

text \<open>\<^verbatim>\<open>' '.join(call)\<close> and \<^verbatim>\<open>s.split(' ')\<close>.\<close>

fun join_space :: "string list \<Rightarrow> string" where
  "join_space [] = []"
| "join_space [s] = s"
| "join_space (s # t # ss) = s @ CHR '' '' # join_space (t # ss)"

fun split_from :: "string \<Rightarrow> string \<Rightarrow> string list" where
  "split_from cur [] = [cur]"
| "split_from cur (c # cs) =
    (if c = CHR '' '' then cur # split_from [] cs else split_from (cur @ [c]) cs)"

definition split_space :: "string \<Rightarrow> string list" where
  "split_space s = split_from [] s"

text \<open>\<^verbatim>\<open>os.path.join(a, b)\<close> for two components.\<close>

definition path_join :: "string \<Rightarrow> string \<Rightarrow> string" where
  "path_join a b =
    (if b \<noteq> [] \<and> hd b = CHR ''/'' then b
     else if a = [] \<or> last a = CHR ''/'' then a @ b
     else a @ CHR ''/'' # b)"

text \<open>The text appended to the first argument of the exception at line 93.\<close>

definition alias_hint :: string where
  "alias_hint = CHR 0x0A # ''You need to alias klayout. See README for instructions''"

text \<open>
  Lines 83-97. \<open>check_output\<close> is \<^verbatim>\<open>subprocess.check_output\<close>: it returns the output of
  the process, or raises. \<open>here\<close> is the real path of the directory of the module.
\<close>

definition run_xor_pya ::
  "(string list \<Rightarrow> error + string) \<Rightarrow> string \<Rightarrow> string \<Rightarrow> string \<Rightarrow> int \<Rightarrow> bool \<Rightarrow>
   stdout_line list \<times> (error + unit)" where
  "run_xor_pya check_output here file1 file2 tolerance verbose =
    (let call = [''klayout -b'',
                 ''-rd a='' @ file1,
                 ''-rd b='' @ file2,
                 ''-rd tol='' @ str_int tolerance,
                 ''-r '' @ path_join here ''run_xor.rb'']
     in case check_output (split_space (join_space call)) of
          Inr _ \<Rightarrow> ([], Inr ())
        | Inl (FileNotFoundError args) \<Rightarrow>
            (case args of
               [] \<Rightarrow> ([], Inl IndexError)
             | a # _ \<Rightarrow> ([], Inl (FileNotFoundError [PyStr (str_pyval a @ alias_hint)])))
        | Inl (CalledProcessError rc) \<Rightarrow>
            ([Print_error (CalledProcessError rc)],
             Inl (GeometryDifference (Differences_found file1 file2)))
        | Inl e \<Rightarrow> ([], Inl e))"

subsection \<open>run_xor_phidl: the polygon-boolean comparison\<close>

text \<open>
  A phidl device is modelled by what \<^verbatim>\<open>get_polygons(by_spec = True)\<close> returns: the
  polygons of each (layer, datatype), as an association list.
\<close>

type_synonym 'p device = "(layer_info \<times> 'p list) list"

text \<open>
  \<open>import_gds\<close> is \<^verbatim>\<open>pg.import_gds\<close>. \<open>fast_boolean_xor\<close> is \<^verbatim>\<open>gdspy.fast_boolean\<close>
  with operation \<^verbatim>\<open>'xor'\<close>, precision 0.001 and max_points 4000, on the given layer:
  the polygons of the result, or None when the result is empty.
\<close>

record 'p phidl =
  import_gds :: "string \<Rightarrow> error + 'p device"
  fast_boolean_xor :: "'p list \<Rightarrow> 'p list \<Rightarrow> layer_info \<Rightarrow> 'p list option"

text \<open>
  Lines 116-126: the loop over \<open>all_layers\<close>; the state is the variable \<open>p\<close> and the
  elements of \<open>D\<close>. The last branch keeps the \<open>p\<close> of the round before.
\<close>

fun xor_layers_phidl ::
  "'p phidl \<Rightarrow> 'p device \<Rightarrow> 'p device \<Rightarrow> layer_info list \<Rightarrow>
   'p list option \<times> 'p list \<Rightarrow> 'p list option \<times> 'p list" where
  "xor_layers_phidl g A_polys B_polys [] st = st"
| "xor_layers_phidl g A_polys B_polys (layer # layers) st =
    (let p = (case (map_of A_polys layer, map_of B_polys layer) of
                (Some a, Some b) \<Rightarrow> fast_boolean_xor g a b layer
              | (Some a, None) \<Rightarrow> Some a
              | (None, Some b) \<Rightarrow> Some b
              | (None, None) \<Rightarrow> fst st);
         elements = (case p of None \<Rightarrow> snd st | Some polys \<Rightarrow> snd st @ polys)
     in xor_layers_phidl g A_polys B_polys layers (p, elements))"

text \<open>
  Lines 104-127: the elements of the device returned. \<open>all_layers\<close> is a Python set; the
  model walks it in the order of first occurrence.
\<close>

definition xor_polygons_phidl :: "'p phidl \<Rightarrow> 'p device \<Rightarrow> 'p device \<Rightarrow> 'p list" where
  "xor_polygons_phidl g A B =
    (let A_layers = map fst A;
         B_layers = map fst B;
         all_layers = remdups (A_layers @ B_layers)
     in snd (xor_layers_phidl g A B all_layers (None, [])))"

text \<open>Lines 130-135.\<close>

definition run_xor_phidl ::
  "'p phidl \<Rightarrow> string \<Rightarrow> string \<Rightarrow> int \<Rightarrow> bool \<Rightarrow> stdout_line list \<times> (error + unit)" where
  "run_xor_phidl g file1 file2 tolerance verbose =
    (case import_gds g file1 of
       Inl e \<Rightarrow> ([], Inl e)
     | Inr TOP1 \<Rightarrow>
    (case import_gds g file2 of
       Inl e \<Rightarrow> ([], Inl e)
     | Inr TOP2 \<Rightarrow>
    (let XOR = xor_polygons_phidl g TOP1 TOP2
     in if length XOR > 0
        then ([], Inl (GeometryDifference (Differences_found file1 file2)))
        else ([], Inr ()))))"

subsection \<open>The engine detection at import time\<close>

text \<open>
  Lines 5-15: the flags (using_phidl, using_macros), from which imports succeed.
  \<^verbatim>\<open>import phidl, gdspy\<close> and \<^verbatim>\<open>import phidl.geometry\<close> succeed when both packages
  are installed. Nothing looks for the klayout executable.
\<close>

definition detect :: "bool \<Rightarrow> bool \<Rightarrow> bool \<Rightarrow> bool \<times> bool" where
  "detect have_klayout_db have_phidl have_gdspy =
    (if have_klayout_db then (False, False)
     else if have_phidl \<and> have_gdspy then (True, False)
     else (False, True))"

datatype run_xor_impl = Run_xor | Run_xor_pya | Run_xor_phidl

text \<open>
  Lines 22, 100-101 and 138-139: what the module-level name \<^verbatim>\<open>run_xor\<close> is bound to
  once the module is loaded.
\<close>

definition bind_run_xor :: "bool \<times> bool \<Rightarrow> run_xor_impl" where
  "bind_run_xor flags =
    (let using_phidl = fst flags;
         using_macros = snd flags;
         bound = Run_xor;
         bound = (if using_macros then Run_xor_pya else bound);
         bound = (if using_phidl then Run_xor_phidl else bound)
     in bound)"

subsection \<open>The selector as the specification words it\<close>

datatype engine = In_process | External_process | Polygon_boolean

text \<open>
  The specification's selector: the first available engine in the order in-process
  library, external process tool, polygon-boolean pair; an error when there is none.
\<close>

datatype no_backend = No_geometry_backend_available

definition SelectBackend_spec :: "engine set \<Rightarrow> no_backend + engine" where
  "SelectBackend_spec available =
    (case find (\<lambda>e. e \<in> available) [In_process, External_process, Polygon_boolean] of
       None \<Rightarrow> Inl No_geometry_backend_available
     | Some e \<Rightarrow> Inr e)"

text \<open>The engine behind each implementation, and the module's choice on a set of engines.\<close>

definition engine_of :: "run_xor_impl \<Rightarrow> engine" where
  "engine_of impl =
    (case impl of
       Run_xor \<Rightarrow> In_process
     | Run_xor_pya \<Rightarrow> External_process
     | Run_xor_phidl \<Rightarrow> Polygon_boolean)"

definition module_engine :: "engine set \<Rightarrow> engine" where
  "module_engine available =
    engine_of (bind_run_xor
      (detect (In_process \<in> available) (Polygon_boolean \<in> available)
         (Polygon_boolean \<in> available)))"

subsection \<open>A reference geometry: regions of unit grid squares\<close>

text \<open>
  A region is a finite list of unit squares of the integer grid, each named by its lower
  left corner. Shrinking by \<open>d\<close> keeps a square when every square within distance \<open>d\<close>
  (in both axes) belongs to the region; growing adds those squares.
\<close>

type_synonym grid_region = "(int \<times> int) list"

definition grid_xor :: "grid_region \<Rightarrow> grid_region \<Rightarrow> grid_region" where
  "grid_xor a b = filter (\<lambda>p. p \<notin> set b) a @ filter (\<lambda>p. p \<notin> set a) b"

definition grid_around :: "int \<Rightarrow> int \<times> int \<Rightarrow> (int \<times> int) list" where
  "grid_around d p = concat (map (\<lambda>dx. map (\<lambda>dy. (fst p + dx, snd p + dy)) [- d..d]) [- d..d])"

definition grid_size :: "grid_region \<Rightarrow> int \<Rightarrow> grid_region" where
  "grid_size r d =
    (if d < 0 then filter (\<lambda>p. list_all (\<lambda>q. q \<in> set r) (grid_around (- d) p)) r
     else remdups (concat (map (grid_around d) r)))"

definition grid_kdb :: "(string \<Rightarrow> error + grid_region layout) \<Rightarrow> grid_region kdb" where
  "grid_kdb rd =
    \<lparr>Layout_read = rd,
     Region_xor = grid_xor,
     Region_size = grid_size,
     Region_is_empty = (\<lambda>r. r = []),
     Region_count = length\<rparr>"

text \<open>
  Example layouts over the reference geometry, after the example library of the
  repository (layers (1, 0) and (2, 0), shapes on the first one): a layout with both
  layers and one top cell TOP, and a layout with the first layer only.
\<close>

definition TOP_cell :: "grid_region \<Rightarrow> grid_region cell" where
  "TOP_cell r = \<lparr>cell_name = ''TOP'', begin_shapes_rec = (\<lambda>ll. if ll = 0 then r else [])\<rparr>"

definition layout_two_layers :: "grid_region \<Rightarrow> real \<Rightarrow> grid_region layout" where
  "layout_two_layers r u =
    \<lparr>layer_indices = [0, 1],
     get_info = (\<lambda>ll. if ll = 0 then (1, 0) else (2, 0)),
     top_cells = [TOP_cell r],
     dbu = u\<rparr>"

definition layout_one_layer :: "grid_region \<Rightarrow> real \<Rightarrow> grid_region layout" where
  "layout_one_layer r u =
    \<lparr>layer_indices = [0],
     get_info = (\<lambda>ll. (1, 0)),
     top_cells = [TOP_cell r],
     dbu = u\<rparr>"

definition layout_other_top :: "grid_region \<Rightarrow> real \<Rightarrow> grid_region layout" where
  "layout_other_top r u =
    \<lparr>layer_indices = [0, 1],
     get_info = (\<lambda>ll. if ll = 0 then (1, 0) else (2, 0)),
     top_cells = [\<lparr>cell_name = ''OTHER'', begin_shapes_rec = (\<lambda>ll. if ll = 0 then r else [])\<rparr>],
     dbu = u\<rparr>"

text \<open>
  A directory of example files: a.gds holds one unit square on layer (1, 0); a_copy.gds
  is a copy of it; b.gds lacks layer (2, 0); c.gds lacks the square; d.gds has a database
  unit of 0.002 instead of 0.001; in e.gds the top cell is named OTHER.
\<close>

definition example_files :: "string \<Rightarrow> error + grid_region layout" where
  "example_files f =
    (if f = ''a.gds'' then Inr (layout_two_layers [(0, 0)] (1 / 1000))
     else if f = ''a_copy.gds'' then Inr (layout_two_layers [(0, 0)] (1 / 1000))
     else if f = ''b.gds'' then Inr (layout_one_layer [(0, 0)] (1 / 1000))
     else if f = ''c.gds'' then Inr (layout_two_layers [] (1 / 1000))
     else if f = ''d.gds'' then Inr (layout_two_layers [(0, 0)] (2 / 1000))
     else if f = ''e.gds'' then Inr (layout_other_top [(0, 0)] (1 / 1000))
     else Inl (LibraryError ''cannot read''))"

definition example_kdb :: "grid_region kdb" where
  "example_kdb = grid_kdb example_files"

text \<open>
  An execution path without klayout: launching it raises FileNotFoundError with the
  arguments (errno, message) of the operating system; any other program runs and prints
  nothing.
\<close>

definition no_klayout :: "string list \<Rightarrow> error + string" where
  "no_klayout argv =
    (case argv of
       [] \<Rightarrow> Inr []
     | prog # _ \<Rightarrow>
         if prog = ''klayout''
         then Inl (FileNotFoundError [PyInt 2, PyStr ''No such file or directory''])
         else Inr [])"

text \<open>
  Example files for the polygon-boolean engine, polygons being unit grid squares: a.gds
  and a_copy.gds hold one square on layer (1, 0); b.gds has a square on layer (2, 0) as
  well; c.gds is empty.
\<close>

definition example_phidl :: "(int \<times> int) phidl" where
  "example_phidl =
    \<lparr>import_gds = (\<lambda>f.
       if f = ''a.gds'' then Inr [((1, 0), [(0, 0)])]
       else if f = ''a_copy.gds'' then Inr [((1, 0), [(0, 0)])]
       else if f = ''b.gds'' then Inr [((1, 0), [(0, 0)]), ((2, 0), [(5, 5)])]
       else if f = ''c.gds'' then Inr []
       else Inl (LibraryError ''cannot read'')),
     fast_boolean_xor = (\<lambda>a b layer.
       let x = grid_xor a b in if x = [] then None else Some x)\<rparr>"

subsection \<open>Notions the properties are stated with\<close>

text \<open>The layers of a layout, in the order of their indices.\<close>

definition layer_infos :: "'r layout \<Rightarrow> layer_info list" where
  "layer_infos l = map (get_info l) (layer_indices l)"

definition topcell_names :: "'r layout \<Rightarrow> string list" where
  "topcell_names l = sort (map cell_name (top_cells l))"

text \<open>
  The pairs of top cells of line 53, for the names that \<^verbatim>\<open>cell\<close> finds in both
  layouts.
\<close>

definition found_topcell_pairs :: "'r layout \<Rightarrow> 'r layout \<Rightarrow> ('r cell \<times> 'r cell) list" where
  "found_topcell_pairs l1 l2 =
    List.map_filter
      (\<lambda>n. case (layout_cell l1 n, layout_cell l2 n) of
              (Some a, Some b) \<Rightarrow> Some (a, b)
            | _ \<Rightarrow> None)
      (topcell_names l1)"

text \<open>Whether the pair of layer indices \<open>p\<close> differs between the two cells of \<open>c\<close>.\<close>

definition pair_differs :: "'r kdb \<Rightarrow> int \<Rightarrow> 'r cell \<times> 'r cell \<Rightarrow> nat \<times> nat \<Rightarrow> bool" where
  "pair_differs k tolerance c p \<longleftrightarrow>
    \<not> Region_is_empty k (rxor_of k tolerance (fst c) (snd c) p)"

text \<open>The value of run_xor once both layer loops have passed.\<close>

definition after_layer_check ::
  "'r kdb \<Rightarrow> 'r layout \<Rightarrow> 'r layout \<Rightarrow> string \<Rightarrow> string \<Rightarrow> (nat \<times> nat) list \<Rightarrow> int \<Rightarrow> bool \<Rightarrow>
   stdout_line list \<times> (error + unit)" where
  "after_layer_check k l1 l2 file1 file2 lps t v =
    (if topcell_names l1 \<noteq> topcell_names l2
     then ([], Inl (GeometryDifference (Missing_topcell (topcell_names l1) (topcell_names l2))))
     else if dbu l1 - dbu l2 > 1 / 10 ^ 6
     then ([], Inl (GeometryDifference (Database_unit_differs file1 (dbu l1) file2 (dbu l2))))
     else ((if v then concat (map (\<lambda>c. map (pair_line k l1 t (fst c) (snd c)) lps)
                                (found_topcell_pairs l1 l2))
            else []),
           (if \<exists>c\<in>set (found_topcell_pairs l1 l2). \<exists>p\<in>set lps. pair_differs k t c p
            then Inl (GeometryDifference (Differences_found file1 file2))
            else Inr ())))"

text \<open>The argument list that run_xor_pya launches (lines 86-91).\<close>

definition pya_argv :: "string \<Rightarrow> string \<Rightarrow> string \<Rightarrow> int \<Rightarrow> string list" where
  "pya_argv here file1 file2 tolerance =
    split_space (join_space
      [''klayout -b'',
       ''-rd a='' @ file1,
       ''-rd b='' @ file2,
       ''-rd tol='' @ str_int tolerance,
       ''-r '' @ path_join here ''run_xor.rb''])"

text \<open>
  The polygons that one layer adds to the device of xor_polygons_phidl: the XOR of the
  two polygon lists when both devices have the layer, the polygons of the device that
  has it otherwise.
\<close>

definition layer_polygons :: "'p phidl \<Rightarrow> 'p device \<Rightarrow> 'p device \<Rightarrow> layer_info \<Rightarrow> 'p list" where
  "layer_polygons g A B layer =
    (case (map_of A layer, map_of B layer) of
       (Some a, Some b) \<Rightarrow> (case fast_boolean_xor g a b layer of None \<Rightarrow> [] | Some ps \<Rightarrow> ps)
     | (Some a, None) \<Rightarrow> a
     | (None, Some b) \<Rightarrow> b
     | (None, None) \<Rightarrow> [])"

text \<open>
  The per-pair step of the geometric pass as the specification words it: the regions of
  the two sides are XORed, and the result is eroded by the tolerance when the tolerance
  is positive.
\<close>

definition eroded_xor_spec :: "'r kdb \<Rightarrow> int \<Rightarrow> 'r \<Rightarrow> 'r \<Rightarrow> 'r" where
  "eroded_xor_spec k tolerance region1 region2 =
    (if tolerance > 0 then Region_size k (Region_xor k region1 region2) (- tolerance)
     else Region_xor k region1 region2)"

section \<open>Properties\<close>

subsection \<open>Lemmas on the layer check\<close>

lemma find_layer_None: "find_layer l info = None \<longleftrightarrow> info \<notin> set (layer_infos l)"
  by (auto simp: find_layer_def layer_infos_def find_None_iff)

lemma find_layer_in: "info \<in> set (layer_infos l) \<longleftrightarrow> (\<exists>j. find_layer l info = Some j)"
  using find_layer_None [of l info] by auto

lemma layer_check_Inl:
  "layer_check la lb fa fb xs = Inl e \<Longrightarrow>
   \<exists>i\<in>set xs. get_info la i \<notin> set (layer_infos lb) \<and>
     e = GeometryDifference (Layer_not_present (get_info la i) fa fb)"
  by (induction xs) (auto simp: find_layer_None split: option.splits sum.splits)

lemma layer_check_Inr:
  "(\<exists>ps. layer_check la lb fa fb xs = Inr ps) \<longleftrightarrow>
   (\<forall>i\<in>set xs. get_info la i \<in> set (layer_infos lb))"
  by (induction xs) (auto simp: find_layer_in split: option.splits sum.splits)

lemma layer_check_pairs:
  "layer_check la lb fa fb xs = Inr ps \<Longrightarrow>
   map fst ps = xs \<and> (\<forall>p\<in>set ps. find_layer lb (get_info la (fst p)) = Some (snd p))"
  by (induction xs arbitrary: ps) (auto split: option.splits sum.splits)

lemma layer_check_all_Inr:
  "(\<exists>ps. layer_check la lb fa fb (layer_indices la) = Inr ps) \<longleftrightarrow>
   set (layer_infos la) \<subseteq> set (layer_infos lb)"
  by (auto simp: layer_check_Inr layer_infos_def)

subsection \<open>Lemmas on the loops\<close>

lemma layer_loop_eq:
  "layer_loop k l1 t v tc1 tc2 ps st =
    (fst st \<or> (\<exists>p\<in>set ps. \<not> Region_is_empty k (rxor_of k t tc1 tc2 p)),
     snd st @ (if v then map (pair_line k l1 t tc1 tc2) ps else []))"
  by (induction ps arbitrary: st) (auto simp: Let_def)

lemma cell_loop_eq:
  "cell_loop k l1 t v lps (map (\<lambda>c. (Some (fst c), Some (snd c))) tcs) st =
    (snd st @ (if v then concat (map (\<lambda>c. map (pair_line k l1 t (fst c) (snd c)) lps) tcs)
               else []),
     Inr (fst st \<or> (\<exists>c\<in>set tcs. \<exists>p\<in>set lps. pair_differs k t c p)))"
  by (induction tcs arbitrary: st) (auto simp: layer_loop_eq pair_differs_def)

lemma layout_cell_Some:
  "n \<in> set (map cell_name (top_cells l)) \<Longrightarrow> \<exists>c. layout_cell l n = Some c"
  by (cases "layout_cell l n") (auto simp: layout_cell_def find_None_iff)

lemma layout_cell_name: "layout_cell l n = Some c \<Longrightarrow> cell_name c = n"
  by (auto simp: layout_cell_def find_Some_iff)

lemma map_filter_pairs:
  "\<forall>n\<in>set ns. (\<exists>a. layout_cell l1 n = Some a) \<and> (\<exists>b. layout_cell l2 n = Some b) \<Longrightarrow>
   map (\<lambda>n. (layout_cell l1 n, layout_cell l2 n)) ns =
   map (\<lambda>c. (Some (fst c), Some (snd c)))
     (List.map_filter
        (\<lambda>n. case (layout_cell l1 n, layout_cell l2 n) of
                (Some a, Some b) \<Rightarrow> Some (a, b)
              | _ \<Rightarrow> None) ns)"
  by (induction ns) (auto simp: List.map_filter_def)

lemma map_filter_names:
  "\<forall>n\<in>set ns. (\<exists>a. layout_cell l1 n = Some a) \<and> (\<exists>b. layout_cell l2 n = Some b) \<Longrightarrow>
   map (\<lambda>c. (cell_name (fst c), cell_name (snd c)))
     (List.map_filter
        (\<lambda>n. case (layout_cell l1 n, layout_cell l2 n) of
                (Some a, Some b) \<Rightarrow> Some (a, b)
              | _ \<Rightarrow> None) ns) = map (\<lambda>n. (n, n)) ns"
  by (induction ns) (auto simp: List.map_filter_def layout_cell_name)

lemma names_found:
  assumes "topcell_names l1 = topcell_names l2"
  shows "\<forall>n\<in>set (topcell_names l1).
           (\<exists>a. layout_cell l1 n = Some a) \<and> (\<exists>b. layout_cell l2 n = Some b)"
proof
  fix n assume n: "n \<in> set (topcell_names l1)"
  then have "n \<in> set (map cell_name (top_cells l1))"
    by (simp add: topcell_names_def)
  moreover from n assms have "n \<in> set (topcell_names l2)"
    by simp
  then have "n \<in> set (map cell_name (top_cells l2))"
    by (simp add: topcell_names_def)
  ultimately show "(\<exists>a. layout_cell l1 n = Some a) \<and> (\<exists>b. layout_cell l2 n = Some b)"
    using layout_cell_Some [of n l1] layout_cell_Some [of n l2] by blast
qed

lemma topcell_pairs_found:
  "topcell_names l1 = topcell_names l2 \<Longrightarrow>
   map (\<lambda>n. (layout_cell l1 n, layout_cell l2 n)) (topcell_names l1) =
   map (\<lambda>c. (Some (fst c), Some (snd c))) (found_topcell_pairs l1 l2)"
  unfolding found_topcell_pairs_def by (rule map_filter_pairs) (rule names_found)

lemma topcell_pairs_names:
  "topcell_names l1 = topcell_names l2 \<Longrightarrow>
   map (\<lambda>c. (cell_name (fst c), cell_name (snd c))) (found_topcell_pairs l1 l2) =
   map (\<lambda>n. (n, n)) (topcell_names l1)"
  unfolding found_topcell_pairs_def by (rule map_filter_names) (rule names_found)

subsection \<open>run_xor, check by check\<close>

lemma run_xor_layer1:
  assumes "Layout_read k file1 = Inr l1" "Layout_read k file2 = Inr l2"
    "layer_check l1 l2 file1 file2 (layer_indices l1) = Inl e"
  shows "run_xor k file1 file2 t v = ([], Inl e)"
  using assms by (simp add: run_xor_def)

lemma run_xor_layer2:
  assumes "Layout_read k file1 = Inr l1" "Layout_read k file2 = Inr l2"
    "layer_check l1 l2 file1 file2 (layer_indices l1) = Inr lps"
    "layer_check l2 l1 file2 file1 (layer_indices l2) = Inl e"
  shows "run_xor k file1 file2 t v = ([], Inl e)"
  using assms by (simp add: run_xor_def)

lemma run_xor_topcell:
  assumes "Layout_read k file1 = Inr l1" "Layout_read k file2 = Inr l2"
    "layer_check l1 l2 file1 file2 (layer_indices l1) = Inr lps"
    "layer_check l2 l1 file2 file1 (layer_indices l2) = Inr bps"
    "topcell_names l1 \<noteq> topcell_names l2"
  shows "run_xor k file1 file2 t v =
    ([], Inl (GeometryDifference (Missing_topcell (topcell_names l1) (topcell_names l2))))"
  using assms by (simp add: run_xor_def topcell_names_def)

lemma run_xor_dbu:
  assumes "Layout_read k file1 = Inr l1" "Layout_read k file2 = Inr l2"
    "layer_check l1 l2 file1 file2 (layer_indices l1) = Inr lps"
    "layer_check l2 l1 file2 file1 (layer_indices l2) = Inr bps"
    "topcell_names l1 = topcell_names l2"
    "dbu l1 - dbu l2 > 1 / 10 ^ 6"
  shows "run_xor k file1 file2 t v =
    ([], Inl (GeometryDifference (Database_unit_differs file1 (dbu l1) file2 (dbu l2))))"
  using assms by (simp add: run_xor_def topcell_names_def)

lemma run_xor_geometry:
  assumes "Layout_read k file1 = Inr l1" "Layout_read k file2 = Inr l2"
    "layer_check l1 l2 file1 file2 (layer_indices l1) = Inr lps"
    "layer_check l2 l1 file2 file1 (layer_indices l2) = Inr bps"
    "topcell_names l1 = topcell_names l2"
    "dbu l1 - dbu l2 \<le> 1 / 10 ^ 6"
  shows "run_xor k file1 file2 t v =
    ((if v then concat (map (\<lambda>c. map (pair_line k l1 t (fst c) (snd c)) lps)
                         (found_topcell_pairs l1 l2))
      else []),
     (if \<exists>c\<in>set (found_topcell_pairs l1 l2). \<exists>p\<in>set lps. pair_differs k t c p
      then Inl (GeometryDifference (Differences_found file1 file2))
      else Inr ()))"
proof -
  have tp: "map (\<lambda>n. (layout_cell l1 n, layout_cell l2 n)) (sort (map cell_name (top_cells l1))) =
      map (\<lambda>c. (Some (fst c), Some (snd c))) (found_topcell_pairs l1 l2)"
    using topcell_pairs_found [OF assms(5)] by (simp add: topcell_names_def)
  have names: "sort (map cell_name (top_cells l1)) = sort (map cell_name (top_cells l2))"
    using assms(5) by (simp add: topcell_names_def)
  have d: "\<not> dbu l1 - dbu l2 > 1 / 10 ^ 6"
    using assms(6) by simp
  show ?thesis
    unfolding run_xor_def
    apply (simp only: assms(1-4) sum.case Let_def tp cell_loop_eq)
    apply (insert d)
    apply (simp add: names)
    done
qed

subsection \<open>The example files\<close>

lemma example_reads:
  "Layout_read example_kdb ''a.gds'' = Inr (layout_two_layers [(0, 0)] (1 / 1000))"
  "Layout_read example_kdb ''a_copy.gds'' = Inr (layout_two_layers [(0, 0)] (1 / 1000))"
  "Layout_read example_kdb ''b.gds'' = Inr (layout_one_layer [(0, 0)] (1 / 1000))"
  "Layout_read example_kdb ''c.gds'' = Inr (layout_two_layers [] (1 / 1000))"
  "Layout_read example_kdb ''d.gds'' = Inr (layout_two_layers [(0, 0)] (2 / 1000))"
  "Layout_read example_kdb ''e.gds'' = Inr (layout_other_top [(0, 0)] (1 / 1000))"
  by (simp_all add: example_kdb_def grid_kdb_def example_files_def)

lemma example_layer_infos:
  "layer_infos (layout_two_layers r u) = [(1, 0), (2, 0)]"
  "layer_infos (layout_one_layer r u) = [(1, 0)]"
  "layer_infos (layout_other_top r u) = [(1, 0), (2, 0)]"
  by (simp_all add: layer_infos_def layout_two_layers_def layout_one_layer_def
      layout_other_top_def)

lemma example_layer_checks:
  "layer_check (layout_two_layers r u) (layout_two_layers r' u') fa fb
     (layer_indices (layout_two_layers r u)) = Inr [(0, 0), (1, 1)]"
  "layer_check (layout_two_layers r u) (layout_one_layer r' u') fa fb
     (layer_indices (layout_two_layers r u)) =
   Inl (GeometryDifference (Layer_not_present (2, 0) fa fb))"
  by (simp_all add: layout_two_layers_def layout_one_layer_def find_layer_def)

lemma example_topcells:
  "topcell_names (layout_two_layers r u) = [''TOP'']"
  "topcell_names (layout_one_layer r u) = [''TOP'']"
  "topcell_names (layout_other_top r u) = [''OTHER'']"
  "found_topcell_pairs (layout_two_layers r u) (layout_two_layers r' u') =
     [(TOP_cell r, TOP_cell r')]"
  by (simp_all add: topcell_names_def found_topcell_pairs_def layout_cell_def
      layout_two_layers_def layout_one_layer_def layout_other_top_def TOP_cell_def
      List.map_filter_def)

lemma example_dbu:
  "dbu (layout_two_layers r u) = u"
  "dbu (layout_one_layer r u) = u"
  "dbu (layout_other_top r u) = u"
  by (simp_all add: layout_two_layers_def layout_one_layer_def layout_other_top_def)

lemma example_fields:
  "get_info (layout_two_layers r u) ll = (if ll = 0 then (1, 0) else (2, 0))"
  "get_info (layout_one_layer r u) ll = (1, 0)"
  "cell_name (TOP_cell r) = ''TOP''"
  "begin_shapes_rec (TOP_cell r) ll = (if ll = 0 then r else [])"
  by (simp_all add: layout_two_layers_def layout_one_layer_def TOP_cell_def)

lemma example_regions:
  "Region_xor example_kdb = grid_xor"
  "Region_size example_kdb = grid_size"
  "Region_is_empty example_kdb = (\<lambda>r. r = [])"
  "Region_count example_kdb = length"
  by (simp_all add: example_kdb_def grid_kdb_def)

lemma grid_xor_self: "grid_xor r r = []"
  by (simp add: grid_xor_def)

lemma grid_size_Nil: "grid_size [] d = []"
  by (simp add: grid_size_def)

subsection \<open>run_xor as a whole\<close>

lemma run_xor_layers_differ:
  assumes "Layout_read k file1 = Inr l1" and "Layout_read k file2 = Inr l2"
    and ne: "set (layer_infos l1) \<noteq> set (layer_infos l2)"
  shows "\<exists>li. (li \<in> set (layer_infos l1) \<and> li \<notin> set (layer_infos l2) \<and>
                 run_xor k file1 file2 tolerance verbose =
                   ([], Inl (GeometryDifference (Layer_not_present li file1 file2)))) \<or>
                (li \<in> set (layer_infos l2) \<and> li \<notin> set (layer_infos l1) \<and>
                 run_xor k file1 file2 tolerance verbose =
                   ([], Inl (GeometryDifference (Layer_not_present li file2 file1))))"
proof (cases "layer_check l1 l2 file1 file2 (layer_indices l1)")
  case (Inl e)
  from layer_check_Inl [OF Inl] obtain i where
    i: "i \<in> set (layer_indices l1)" "get_info l1 i \<notin> set (layer_infos l2)"
      "e = GeometryDifference (Layer_not_present (get_info l1 i) file1 file2)"
    by blast
  from i(1) have "get_info l1 i \<in> set (layer_infos l1)"
    by (simp add: layer_infos_def)
  with i(2,3) run_xor_layer1 [OF assms(1,2) Inl, of tolerance verbose] show ?thesis
    by blast
next
  case (Inr lps)
  then have sub: "set (layer_infos l1) \<subseteq> set (layer_infos l2)"
    using layer_check_all_Inr [of l1 l2 file1 file2] by blast
  show ?thesis
  proof (cases "layer_check l2 l1 file2 file1 (layer_indices l2)")
    case (Inl e)
    from layer_check_Inl [OF Inl] obtain i where
      i: "i \<in> set (layer_indices l2)" "get_info l2 i \<notin> set (layer_infos l1)"
        "e = GeometryDifference (Layer_not_present (get_info l2 i) file2 file1)"
      by blast
    from i(1) have "get_info l2 i \<in> set (layer_infos l2)"
      by (simp add: layer_infos_def)
    with i(2,3) run_xor_layer2 [OF assms(1,2) Inr Inl, of tolerance verbose] show ?thesis
      by blast
  next
    case (Inr bps)
    then have "set (layer_infos l2) \<subseteq> set (layer_infos l1)"
      using layer_check_all_Inr [of l2 l1 file2 file1] by blast
    with sub ne show ?thesis by blast
  qed
qed

lemma layers_equal_checks:
  assumes "set (layer_infos l1) = set (layer_infos l2)"
  shows "\<exists>lps bps. layer_check l1 l2 file1 file2 (layer_indices l1) = Inr lps \<and>
                    layer_check l2 l1 file2 file1 (layer_indices l2) = Inr bps"
  using layer_check_all_Inr [of l1 l2 file1 file2] layer_check_all_Inr [of l2 l1 file2 file1]
    assms by blast

lemma run_xor_after_layer_check:
  assumes "Layout_read k file1 = Inr l1" and "Layout_read k file2 = Inr l2"
    and "layer_check l1 l2 file1 file2 (layer_indices l1) = Inr lps"
    and "layer_check l2 l1 file2 file1 (layer_indices l2) = Inr bps"
  shows "run_xor k file1 file2 t v = after_layer_check k l1 l2 file1 file2 lps t v"
proof (cases "topcell_names l1 = topcell_names l2")
  case False
  then show ?thesis
    using run_xor_topcell [OF assms, of t v] by (simp add: after_layer_check_def)
next
  case names: True
  show ?thesis
  proof (cases "dbu l1 - dbu l2 > 1 / 10 ^ 6")
    case True
    then show ?thesis
      using run_xor_dbu [OF assms names, of t v] names by (simp add: after_layer_check_def)
  next
    case False
    then have "dbu l1 - dbu l2 \<le> 1 / 10 ^ 6" by simp
    from run_xor_geometry [OF assms names this, of t v] False names show ?thesis
      by (simp add: after_layer_check_def)
  qed
qed

lemma after_layer_check_error:
  "snd (after_layer_check k l1 l2 file1 file2 lps t v) = Inl e \<Longrightarrow> \<exists>m. e = GeometryDifference m"
  by (auto simp: after_layer_check_def split: if_splits)

subsection \<open>The layer-set check\<close>

text \<open>
  C2: the comparison requires the two layouts to have the same set of layers. When the
  sets differ, run_xor fails with an error that names a layer present in one layout and
  absent from the other, and the two files in the order (layout that has it, layout that
  lacks it); nothing is printed and no region is compared, whatever the shapes, the
  tolerance and the verbosity are. When the sets are equal, no such error is raised.
\<close>

theorem layer_set_check:
  assumes "Layout_read k file1 = Inr l1" and "Layout_read k file2 = Inr l2"
  shows "(set (layer_infos l1) \<noteq> set (layer_infos l2) \<longrightarrow>
          (\<exists>li. (li \<in> set (layer_infos l1) \<and> li \<notin> set (layer_infos l2) \<and>
                 run_xor k file1 file2 tolerance verbose =
                   ([], Inl (GeometryDifference (Layer_not_present li file1 file2)))) \<or>
                (li \<in> set (layer_infos l2) \<and> li \<notin> set (layer_infos l1) \<and>
                 run_xor k file1 file2 tolerance verbose =
                   ([], Inl (GeometryDifference (Layer_not_present li file2 file1)))))) \<and>
         (set (layer_infos l1) = set (layer_infos l2) \<longrightarrow>
          (\<forall>li fa fb. snd (run_xor k file1 file2 tolerance verbose) \<noteq>
             Inl (GeometryDifference (Layer_not_present li fa fb))))"
proof (intro conjI impI)
  assume "set (layer_infos l1) \<noteq> set (layer_infos l2)"
  from run_xor_layers_differ [OF assms this]
  show "\<exists>li. (li \<in> set (layer_infos l1) \<and> li \<notin> set (layer_infos l2) \<and>
                 run_xor k file1 file2 tolerance verbose =
                   ([], Inl (GeometryDifference (Layer_not_present li file1 file2)))) \<or>
                (li \<in> set (layer_infos l2) \<and> li \<notin> set (layer_infos l1) \<and>
                 run_xor k file1 file2 tolerance verbose =
                   ([], Inl (GeometryDifference (Layer_not_present li file2 file1))))" .
next
  assume "set (layer_infos l1) = set (layer_infos l2)"
  from layers_equal_checks [OF this, of file1 file2] obtain lps bps where
    "layer_check l1 l2 file1 file2 (layer_indices l1) = Inr lps"
    "layer_check l2 l1 file2 file1 (layer_indices l2) = Inr bps"
    by blast
  from run_xor_after_layer_check [OF assms this, of tolerance verbose]
  show "\<forall>li fa fb. snd (run_xor k file1 file2 tolerance verbose) \<noteq>
             Inl (GeometryDifference (Layer_not_present li fa fb))"
    by (simp add: after_layer_check_def)
qed

theorem layer_set_check_witness:
  "(\<exists>li. (li \<in> set (layer_infos (layout_two_layers [(0, 0)] (1 / 1000))) \<and>
          li \<notin> set (layer_infos (layout_one_layer [(0, 0)] (1 / 1000))) \<and>
          run_xor example_kdb ''a.gds'' ''b.gds'' 10 False =
            ([], Inl (GeometryDifference (Layer_not_present li ''a.gds'' ''b.gds'')))) \<or>
         (li \<in> set (layer_infos (layout_one_layer [(0, 0)] (1 / 1000))) \<and>
          li \<notin> set (layer_infos (layout_two_layers [(0, 0)] (1 / 1000))) \<and>
          run_xor example_kdb ''a.gds'' ''b.gds'' 10 False =
            ([], Inl (GeometryDifference (Layer_not_present li ''b.gds'' ''a.gds''))))) \<and>
   (\<forall>li fa fb. snd (run_xor example_kdb ''a.gds'' ''a_copy.gds'' 10 False) \<noteq>
      Inl (GeometryDifference (Layer_not_present li fa fb)))"
  using layer_set_check [OF example_reads(1) example_reads(3), of 10 False]
    layer_set_check [OF example_reads(1) example_reads(2), of 10 False]
  by (simp add: example_layer_infos)

subsection \<open>The geometric pass\<close>

lemma find_layer_Some:
  "find_layer l info = Some j \<Longrightarrow> j \<in> set (layer_indices l) \<and> get_info l j = info"
  by (auto simp: find_layer_def find_Some_iff)

text \<open>
  C6: once the layer loops, the top-cell check and the unit check have passed, run_xor
  evaluates every pair of a top-cell pair and a matched layer pair, cell by cell and
  layer by layer within a cell: with verbose it prints one line for each pair in that
  order, none is skipped. For each pair it takes the region of the first layer index
  under the top cell of layout 1 and the region of the matched layer index under the top
  cell of layout 2, XORs them, erodes the result by the tolerance when the tolerance is
  positive and tests emptiness. The call fails with GeometryDifference naming both files
  if and only if that eroded XOR is non-empty for some pair, and returns normally
  otherwise. There is one top-cell pair for each top-cell name, in sorted order, and one
  layer pair for each layer of the first layout, in index order, matched with the layer
  of the second layout that has the same (layer, datatype).
\<close>

theorem geometric_pass:
  assumes "Layout_read k file1 = Inr l1" and "Layout_read k file2 = Inr l2"
    and "layer_check l1 l2 file1 file2 (layer_indices l1) = Inr layer_pairs"
    and "layer_check l2 l1 file2 file1 (layer_indices l2) = Inr back_pairs"
    and "topcell_names l1 = topcell_names l2"
    and "dbu l1 - dbu l2 \<le> 1 / 10 ^ 6"
  shows "run_xor k file1 file2 tolerance verbose =
          ((if verbose
            then concat (map (\<lambda>c. map (\<lambda>p.
                   if Region_is_empty k
                        (eroded_xor_spec k tolerance (begin_shapes_rec (fst c) (fst p))
                           (begin_shapes_rec (snd c) (snd p)))
                   then Print_no_differences (cell_name (fst c)) (get_info l1 (fst p))
                   else Print_differences
                          (Region_count k
                             (eroded_xor_spec k tolerance (begin_shapes_rec (fst c) (fst p))
                                (begin_shapes_rec (snd c) (snd p))))
                          (cell_name (fst c)) (get_info l1 (fst p))) layer_pairs)
                   (found_topcell_pairs l1 l2))
            else []),
           (if \<exists>c\<in>set (found_topcell_pairs l1 l2). \<exists>p\<in>set layer_pairs.
                 \<not> Region_is_empty k
                      (eroded_xor_spec k tolerance (begin_shapes_rec (fst c) (fst p))
                         (begin_shapes_rec (snd c) (snd p)))
            then Inl (GeometryDifference (Differences_found file1 file2))
            else Inr ())) \<and>
         map (\<lambda>c. (cell_name (fst c), cell_name (snd c))) (found_topcell_pairs l1 l2) =
           map (\<lambda>n. (n, n)) (topcell_names l1) \<and>
         map fst layer_pairs = layer_indices l1 \<and>
         (\<forall>p\<in>set layer_pairs. find_layer l2 (get_info l1 (fst p)) = Some (snd p) \<and>
            snd p \<in> set (layer_indices l2) \<and> get_info l2 (snd p) = get_info l1 (fst p))"
proof -
  have lines: "pair_line k l1 tolerance (fst c) (snd c) p =
      (if Region_is_empty k
            (eroded_xor_spec k tolerance (begin_shapes_rec (fst c) (fst p))
               (begin_shapes_rec (snd c) (snd p)))
       then Print_no_differences (cell_name (fst c)) (get_info l1 (fst p))
       else Print_differences
              (Region_count k
                 (eroded_xor_spec k tolerance (begin_shapes_rec (fst c) (fst p))
                    (begin_shapes_rec (snd c) (snd p))))
              (cell_name (fst c)) (get_info l1 (fst p)))" for c p
    by (simp add: pair_line_def rxor_of_def eroded_xor_spec_def Let_def)
  have differs: "pair_differs k tolerance c p \<longleftrightarrow>
      \<not> Region_is_empty k
           (eroded_xor_spec k tolerance (begin_shapes_rec (fst c) (fst p))
              (begin_shapes_rec (snd c) (snd p)))" for c p
    by (simp add: pair_differs_def rxor_of_def eroded_xor_spec_def Let_def)
  have run: "run_xor k file1 file2 tolerance verbose =
      ((if verbose
        then concat (map (\<lambda>c. map (pair_line k l1 tolerance (fst c) (snd c)) layer_pairs)
                       (found_topcell_pairs l1 l2))
        else []),
       (if \<exists>c\<in>set (found_topcell_pairs l1 l2). \<exists>p\<in>set layer_pairs.
             pair_differs k tolerance c p
        then Inl (GeometryDifference (Differences_found file1 file2))
        else Inr ()))"
    using run_xor_geometry [OF assms, of tolerance verbose] .
  have matched: "\<forall>p\<in>set layer_pairs. find_layer l2 (get_info l1 (fst p)) = Some (snd p) \<and>
      snd p \<in> set (layer_indices l2) \<and> get_info l2 (snd p) = get_info l1 (fst p)"
    using layer_check_pairs [OF assms(3)] find_layer_Some by blast
  have firsts: "map fst layer_pairs = layer_indices l1"
    using layer_check_pairs [OF assms(3)] by simp
  have "(\<lambda>c. map (pair_line k l1 tolerance (fst c) (snd c)) layer_pairs) =
      (\<lambda>c. map (\<lambda>p.
         if Region_is_empty k
              (eroded_xor_spec k tolerance (begin_shapes_rec (fst c) (fst p))
                 (begin_shapes_rec (snd c) (snd p)))
         then Print_no_differences (cell_name (fst c)) (get_info l1 (fst p))
         else Print_differences
                (Region_count k
                   (eroded_xor_spec k tolerance (begin_shapes_rec (fst c) (fst p))
                      (begin_shapes_rec (snd c) (snd p))))
                (cell_name (fst c)) (get_info l1 (fst p))) layer_pairs)"
    by (rule ext) (simp add: lines)
  with run differs topcell_pairs_names [OF assms(5)] firsts matched show ?thesis
    by simp
qed

theorem geometric_pass_witness:
  "run_xor example_kdb ''a.gds'' ''c.gds'' 0 True =
     ([Print_differences 1 ''TOP'' (1, 0), Print_no_differences ''TOP'' (2, 0)],
      Inl (GeometryDifference (Differences_found ''a.gds'' ''c.gds''))) \<and>
   run_xor example_kdb ''a.gds'' ''c.gds'' 1 True =
     ([Print_no_differences ''TOP'' (1, 0), Print_no_differences ''TOP'' (2, 0)], Inr ())"
proof -
  have d: "dbu (layout_two_layers [(0, 0)] (1 / 1000)) - dbu (layout_two_layers [] (1 / 1000))
      \<le> 1 / 10 ^ 6"
    by (simp add: example_dbu)
  have n: "topcell_names (layout_two_layers [(0, 0)] (1 / 1000)) =
      topcell_names (layout_two_layers [] (1 / 1000))"
    by (simp add: example_topcells)
  note gp = geometric_pass [OF example_reads(1) example_reads(4) example_layer_checks(1)
      example_layer_checks(1) n d]
  have g1: "grid_size [(0, 0)] (- 1) = []"
    by code_simp
  show ?thesis
    using gp [of 0 True] gp [of 1 True]
    by (simp add: example_topcells eroded_xor_spec_def example_regions
        example_fields grid_xor_def g1 grid_size_Nil)
qed

subsection \<open>The unit check\<close>

text \<open>
  C1 (the code departs from the claim): the unit check of run_xor compares the signed
  difference dbu1 - dbu2 with 1e-6, not its absolute value. a.gds has a database unit of
  0.001 and d.gds one of 0.002, the rest being equal: the difference is 0.001 in absolute
  value, yet comparing a.gds with d.gds returns normally; only comparing d.gds with a.gds
  fails with the database-unit message.
\<close>

theorem unit_check_is_one_sided:
  "\<bar>dbu (layout_two_layers [(0, 0)] (1 / 1000)) - dbu (layout_two_layers [(0, 0)] (2 / 1000))\<bar>
     > 1 / 10 ^ 6 \<and>
   Layout_read example_kdb ''a.gds'' = Inr (layout_two_layers [(0, 0)] (1 / 1000)) \<and>
   Layout_read example_kdb ''d.gds'' = Inr (layout_two_layers [(0, 0)] (2 / 1000)) \<and>
   run_xor example_kdb ''a.gds'' ''d.gds'' 10 False = ([], Inr ()) \<and>
   run_xor example_kdb ''d.gds'' ''a.gds'' 10 False =
     ([], Inl (GeometryDifference (Database_unit_differs ''d.gds'' (2 / 1000) ''a.gds'' (1 / 1000))))"
proof -
  have a: "run_xor example_kdb ''a.gds'' ''d.gds'' 10 False = ([], Inr ())"
    using run_xor_after_layer_check [OF example_reads(1) example_reads(5)
        example_layer_checks(1) example_layer_checks(1), of 10 False]
    by (simp add: after_layer_check_def example_topcells example_dbu pair_differs_def
        rxor_of_def example_regions example_fields grid_xor_def grid_size_def)
  have b: "run_xor example_kdb ''d.gds'' ''a.gds'' 10 False =
     ([], Inl (GeometryDifference (Database_unit_differs ''d.gds'' (2 / 1000) ''a.gds'' (1 / 1000))))"
    using run_xor_after_layer_check [OF example_reads(5) example_reads(1)
        example_layer_checks(1) example_layer_checks(1), of 10 False]
    by (simp add: after_layer_check_def example_topcells example_dbu)
  show ?thesis
    using a b by (simp add: example_reads example_dbu)
qed

subsection \<open>Runs on the example files\<close>

lemma example_runs:
  "run_xor example_kdb ''a.gds'' ''b.gds'' 10 False =
     ([], Inl (GeometryDifference (Layer_not_present (2, 0) ''a.gds'' ''b.gds'')))"
  "run_xor example_kdb ''a.gds'' ''c.gds'' 0 False =
     ([], Inl (GeometryDifference (Differences_found ''a.gds'' ''c.gds'')))"
  "run_xor example_kdb ''a.gds'' ''c.gds'' 1 False = ([], Inr ())"
proof -
  show "run_xor example_kdb ''a.gds'' ''b.gds'' 10 False =
     ([], Inl (GeometryDifference (Layer_not_present (2, 0) ''a.gds'' ''b.gds'')))"
    using run_xor_layer1 [OF example_reads(1) example_reads(3) example_layer_checks(2)] .
  note r = run_xor_after_layer_check [OF example_reads(1) example_reads(4)
        example_layer_checks(1) example_layer_checks(1)]
  show "run_xor example_kdb ''a.gds'' ''c.gds'' 0 False =
     ([], Inl (GeometryDifference (Differences_found ''a.gds'' ''c.gds'')))"
    using r [of 0 False]
    by (simp add: after_layer_check_def example_topcells example_dbu pair_differs_def
        rxor_of_def example_regions example_fields grid_xor_def)
  have g1: "grid_size [(0, 0)] (- 1) = []"
    by code_simp
  show "run_xor example_kdb ''a.gds'' ''c.gds'' 1 False = ([], Inr ())"
    using r [of 1 False]
    by (simp add: after_layer_check_def example_topcells example_dbu pair_differs_def
        rxor_of_def example_regions example_fields grid_xor_def g1 grid_size_Nil)
qed

subsection \<open>The class of the structural errors\<close>

text \<open>
  C3 (as stated, refuted): a layer mismatch and a geometric difference raise the same
  exception class, GeometryDifference; the module defines no other class.
\<close>

theorem structural_mismatch_counterexample:
  "run_xor example_kdb ''a.gds'' ''b.gds'' 10 False =
     ([], Inl (GeometryDifference (Layer_not_present (2, 0) ''a.gds'' ''b.gds''))) \<and>
   run_xor example_kdb ''a.gds'' ''c.gds'' 0 False =
     ([], Inl (GeometryDifference (Differences_found ''a.gds'' ''c.gds'')))"
  using example_runs(1,2) by simp

text \<open>
  C3 (amended): when both files are read, a structural incompatibility that run_xor
  detects fails with GeometryDifference, the class of the geometric verdict, and is told
  apart from it by its message only: differing layer sets give the layer message,
  differing sorted top-cell names (with equal layer sets) the top-cell message with both
  sorted lists, and dbu1 - dbu2 > 1e-6 (with equal layers and names) the database-unit
  message with both values. Every error of such a call is a GeometryDifference.
\<close>

theorem structural_errors_are_GeometryDifference:
  assumes "Layout_read k file1 = Inr l1" and "Layout_read k file2 = Inr l2"
  shows "(set (layer_infos l1) \<noteq> set (layer_infos l2) \<longrightarrow>
          (\<exists>li fa fb. run_xor k file1 file2 tolerance verbose =
             ([], Inl (GeometryDifference (Layer_not_present li fa fb))))) \<and>
         (set (layer_infos l1) = set (layer_infos l2) \<and>
          topcell_names l1 \<noteq> topcell_names l2 \<longrightarrow>
          run_xor k file1 file2 tolerance verbose =
            ([], Inl (GeometryDifference
               (Missing_topcell (topcell_names l1) (topcell_names l2))))) \<and>
         (set (layer_infos l1) = set (layer_infos l2) \<and>
          topcell_names l1 = topcell_names l2 \<and> dbu l1 - dbu l2 > 1 / 10 ^ 6 \<longrightarrow>
          run_xor k file1 file2 tolerance verbose =
            ([], Inl (GeometryDifference
               (Database_unit_differs file1 (dbu l1) file2 (dbu l2))))) \<and>
         (\<forall>e. snd (run_xor k file1 file2 tolerance verbose) = Inl e \<longrightarrow>
              (\<exists>m. e = GeometryDifference m))"
proof (cases "set (layer_infos l1) = set (layer_infos l2)")
  case False
  from run_xor_layers_differ [OF assms False, of tolerance verbose]
  have "\<exists>li fa fb. run_xor k file1 file2 tolerance verbose =
      ([], Inl (GeometryDifference (Layer_not_present li fa fb)))"
    by blast
  with False show ?thesis by auto
next
  case True
  from layers_equal_checks [OF True, of file1 file2] obtain lps bps where
    "layer_check l1 l2 file1 file2 (layer_indices l1) = Inr lps"
    "layer_check l2 l1 file2 file1 (layer_indices l2) = Inr bps"
    by blast
  from run_xor_after_layer_check [OF assms this, of tolerance verbose]
  have r: "run_xor k file1 file2 tolerance verbose =
      after_layer_check k l1 l2 file1 file2 lps tolerance verbose" .
  have "\<forall>e. snd (run_xor k file1 file2 tolerance verbose) = Inl e \<longrightarrow>
      (\<exists>m. e = GeometryDifference m)"
    unfolding r using after_layer_check_error by blast
  moreover have "topcell_names l1 \<noteq> topcell_names l2 \<longrightarrow>
      run_xor k file1 file2 tolerance verbose =
        ([], Inl (GeometryDifference (Missing_topcell (topcell_names l1) (topcell_names l2))))"
    unfolding r by (simp add: after_layer_check_def)
  moreover have "topcell_names l1 = topcell_names l2 \<and> dbu l1 - dbu l2 > 1 / 10 ^ 6 \<longrightarrow>
      run_xor k file1 file2 tolerance verbose =
        ([], Inl (GeometryDifference (Database_unit_differs file1 (dbu l1) file2 (dbu l2))))"
    unfolding r by (simp add: after_layer_check_def)
  ultimately show ?thesis using True by blast
qed

theorem structural_errors_are_GeometryDifference_witness:
  "(\<exists>li fa fb. run_xor example_kdb ''a.gds'' ''b.gds'' 10 False =
      ([], Inl (GeometryDifference (Layer_not_present li fa fb)))) \<and>
   run_xor example_kdb ''a.gds'' ''e.gds'' 10 False =
      ([], Inl (GeometryDifference (Missing_topcell [''TOP''] [''OTHER'']))) \<and>
   run_xor example_kdb ''d.gds'' ''a.gds'' 10 False =
      ([], Inl (GeometryDifference
         (Database_unit_differs ''d.gds'' (2 / 1000) ''a.gds'' (1 / 1000)))) \<and>
   (\<exists>m. snd (run_xor example_kdb ''a.gds'' ''c.gds'' 0 False) = Inl (GeometryDifference m))"
  using structural_errors_are_GeometryDifference
      [OF example_reads(1) example_reads(3), of 10 False]
    structural_errors_are_GeometryDifference
      [OF example_reads(1) example_reads(6), of 10 False]
    structural_errors_are_GeometryDifference
      [OF example_reads(5) example_reads(1), of 10 False]
    structural_errors_are_GeometryDifference
      [OF example_reads(1) example_reads(4), of 0 False]
  by (simp add: example_layer_infos example_topcells example_dbu example_runs(2))

subsection \<open>A layout compared with itself\<close>

lemma find_distinct:
  "distinct (map f xs) \<Longrightarrow> x \<in> set xs \<Longrightarrow> find (\<lambda>i. f i = f x) xs = Some x"
  by (induction xs) auto

lemma find_layer_self:
  "distinct (layer_infos l) \<Longrightarrow> i \<in> set (layer_indices l) \<Longrightarrow>
   find_layer l (get_info l i) = Some i"
  unfolding find_layer_def layer_infos_def by (rule find_distinct)

lemma layer_check_self_sub:
  "distinct (layer_infos l) \<Longrightarrow> set xs \<subseteq> set (layer_indices l) \<Longrightarrow>
   layer_check l l fa fb xs = Inr (map (\<lambda>i. (i, i)) xs)"
  by (induction xs) (auto simp: find_layer_self)

lemma layer_check_self:
  "distinct (layer_infos l) \<Longrightarrow>
   layer_check l l fa fb (layer_indices l) = Inr (map (\<lambda>i. (i, i)) (layer_indices l))"
  by (rule layer_check_self_sub) simp_all

lemma found_topcell_pairs_self:
  "c \<in> set (found_topcell_pairs l l) \<Longrightarrow> fst c = snd c"
  by (auto simp: found_topcell_pairs_def List.map_filter_def split: option.splits)

lemma pair_differs_self:
  assumes "\<forall>r. Region_is_empty k (Region_xor k r r)"
    and "\<forall>r d. Region_is_empty k r \<longrightarrow> Region_is_empty k (Region_size k r d)"
  shows "\<not> pair_differs k t (c, c) (i, i)"
  using assms by (simp add: pair_differs_def rxor_of_def Let_def)

text \<open>
  C7: comparing a layout file with an exact copy of itself returns normally, for every
  tolerance. The two files read as the same layout, whose layers are distinct (a file
  holds each (layer, datatype) once); the geometry library is such that the XOR of a
  region with itself is empty, and that sizing an empty region leaves it empty.
\<close>

theorem self_comparison:
  assumes "Layout_read k file1 = Inr l" and "Layout_read k file2 = Inr l"
    and "distinct (layer_infos l)"
    and "\<forall>r. Region_is_empty k (Region_xor k r r)"
    and "\<forall>r d. Region_is_empty k r \<longrightarrow> Region_is_empty k (Region_size k r d)"
  shows "snd (run_xor k file1 file2 tolerance verbose) = Inr ()"
proof -
  let ?lps = "map (\<lambda>i. (i, i)) (layer_indices l)"
  have r: "run_xor k file1 file2 tolerance verbose =
      after_layer_check k l l file1 file2 ?lps tolerance verbose"
    using run_xor_after_layer_check [OF assms(1,2) layer_check_self layer_check_self]
      assms(3) by blast
  have "\<not> pair_differs k tolerance c p"
    if "c \<in> set (found_topcell_pairs l l)" and "p \<in> set ?lps" for c p
  proof -
    have "fst c = snd c"
      using that(1) by (rule found_topcell_pairs_self)
    then have "c = (fst c, fst c)"
      by (metis prod.collapse)
    moreover from that(2) have "p = (fst p, fst p)"
      by auto
    ultimately show ?thesis
      using pair_differs_self [OF assms(4,5), of tolerance "fst c" "fst p"] by simp
  qed
  then show ?thesis
    unfolding r by (auto simp: after_layer_check_def)
qed

theorem self_comparison_witness:
  "snd (run_xor example_kdb ''a.gds'' ''a_copy.gds'' 10 False) = Inr () \<and>
   snd (run_xor example_kdb ''a.gds'' ''a_copy.gds'' 0 True) = Inr ()"
proof -
  have d: "distinct (layer_infos (layout_two_layers [(0, 0)] (1 / 1000)))"
    by (simp add: example_layer_infos)
  have x: "\<forall>r. Region_is_empty example_kdb (Region_xor example_kdb r r)"
    by (simp add: example_regions grid_xor_self)
  have s: "\<forall>r d. Region_is_empty example_kdb r \<longrightarrow>
      Region_is_empty example_kdb (Region_size example_kdb r d)"
    by (simp add: example_regions grid_size_Nil)
  show ?thesis
    using self_comparison [OF example_reads(1) example_reads(2) d x s, of 10 False]
      self_comparison [OF example_reads(1) example_reads(2) d x s, of 0 True]
    by simp
qed

subsection \<open>The tolerance\<close>

lemma pair_differs_mono:
  assumes "t \<le> t'"
    and "\<forall>r d. Region_is_empty k r \<longrightarrow> Region_is_empty k (Region_size k r d)"
    and "\<forall>r d d'. d' \<le> d \<longrightarrow> d < 0 \<longrightarrow> Region_is_empty k (Region_size k r d) \<longrightarrow>
           Region_is_empty k (Region_size k r d')"
    and "pair_differs k t' c p"
  shows "pair_differs k t c p"
proof (cases "0 < t'")
  case False
  with assms(1,4) show ?thesis
    by (simp add: pair_differs_def rxor_of_def)
next
  case t': True
  show ?thesis
  proof (cases "0 < t")
    case False
    with t' assms(2,4) show ?thesis
      by (auto simp: pair_differs_def rxor_of_def Let_def)
  next
    case True
    then have "- t' \<le> - t" "- t < 0"
      using assms(1) by simp_all
    with assms(3) have "Region_is_empty k (Region_size k r (- t)) \<Longrightarrow>
        Region_is_empty k (Region_size k r (- t'))" for r
      by blast
    with True t' assms(4) show ?thesis
      by (auto simp: pair_differs_def rxor_of_def Let_def)
  qed
qed

lemma after_layer_check_mono:
  assumes "t \<le> t'"
    and "\<forall>r d. Region_is_empty k r \<longrightarrow> Region_is_empty k (Region_size k r d)"
    and "\<forall>r d d'. d' \<le> d \<longrightarrow> d < 0 \<longrightarrow> Region_is_empty k (Region_size k r d) \<longrightarrow>
           Region_is_empty k (Region_size k r d')"
    and "snd (after_layer_check k l1 l2 f1 f2 lps t v) = Inr ()"
  shows "snd (after_layer_check k l1 l2 f1 f2 lps t' v') = Inr ()"
proof -
  from assms(4) have n: "topcell_names l1 = topcell_names l2"
    and d: "\<not> dbu l1 - dbu l2 > 1 / 10 ^ 6"
    and nd: "\<not> (\<exists>c\<in>set (found_topcell_pairs l1 l2). \<exists>p\<in>set lps. pair_differs k t c p)"
    by (auto simp: after_layer_check_def split: if_splits)
  from nd pair_differs_mono [OF assms(1-3)]
  have "\<not> (\<exists>c\<in>set (found_topcell_pairs l1 l2). \<exists>p\<in>set lps. pair_differs k t' c p)"
    by blast
  with n d show ?thesis
    by (simp add: after_layer_check_def)
qed

text \<open>
  C8: for fixed files the verdict is monotone in the tolerance: when the comparison at
  tolerance t returns normally, so does the comparison at every tolerance t' \<ge> t. The
  geometry library is such that sizing an empty region leaves it empty, and that a region
  which shrinks to nothing by some distance shrinks to nothing by every larger distance.
\<close>

theorem tolerance_monotone:
  assumes "t \<le> t'"
    and "\<forall>r d. Region_is_empty k r \<longrightarrow> Region_is_empty k (Region_size k r d)"
    and "\<forall>r d d'. d' \<le> d \<longrightarrow> d < 0 \<longrightarrow> Region_is_empty k (Region_size k r d) \<longrightarrow>
           Region_is_empty k (Region_size k r d')"
    and "snd (run_xor k file1 file2 t verbose) = Inr ()"
  shows "snd (run_xor k file1 file2 t' verbose') = Inr ()"
proof (cases "Layout_read k file1")
  case (Inl e)
  with assms(4) show ?thesis by (simp add: run_xor_def)
next
  case l1: (Inr l1)
  show ?thesis
  proof (cases "Layout_read k file2")
    case (Inl e)
    with l1 assms(4) show ?thesis by (simp add: run_xor_def)
  next
    case l2: (Inr l2)
    show ?thesis
    proof (cases "layer_check l1 l2 file1 file2 (layer_indices l1)")
      case (Inl e)
      with run_xor_layer1 [OF l1 l2 Inl, of t verbose] assms(4) show ?thesis by simp
    next
      case lps: (Inr lps)
      show ?thesis
      proof (cases "layer_check l2 l1 file2 file1 (layer_indices l2)")
        case (Inl e)
        with run_xor_layer2 [OF l1 l2 lps Inl, of t verbose] assms(4) show ?thesis by simp
      next
        case (Inr bps)
        note r = run_xor_after_layer_check [OF l1 l2 lps Inr]
        from assms(4) have "snd (after_layer_check k l1 l2 file1 file2 lps t verbose) = Inr ()"
          by (simp add: r)
        from after_layer_check_mono [OF assms(1-3) this] show ?thesis
          by (simp add: r)
      qed
    qed
  qed
qed

lemma set_grid_around:
  "set (grid_around d p) = {(fst p + dx, snd p + dy) | dx dy. - d \<le> dx \<and> dx \<le> d \<and> - d \<le> dy \<and> dy \<le> d}"
  by (auto simp: grid_around_def)

lemma grid_size_mono:
  assumes "d' \<le> d" and "d < 0" and "grid_size r d = []"
  shows "grid_size r d' = []"
proof -
  have sub: "set (grid_around (- d) p) \<subseteq> set (grid_around (- d') p)" for p
    using assms(1) by (auto simp: set_grid_around)
  from assms(2,3) have none: "\<forall>p\<in>set r. \<not> list_all (\<lambda>q. q \<in> set r) (grid_around (- d) p)"
    by (simp add: grid_size_def filter_empty_conv)
  have "\<not> list_all (\<lambda>q. q \<in> set r) (grid_around (- d') p)" if "p \<in> set r" for p
  proof
    assume "list_all (\<lambda>q. q \<in> set r) (grid_around (- d') p)"
    then have "\<forall>q\<in>set (grid_around (- d') p). q \<in> set r"
      by (simp add: list_all_iff)
    with sub [of p] have "\<forall>q\<in>set (grid_around (- d) p). q \<in> set r"
      by blast
    then have "list_all (\<lambda>q. q \<in> set r) (grid_around (- d) p)"
      by (simp add: list_all_iff)
    with none that show False by blast
  qed
  with assms(1,2) show ?thesis
    by (simp add: grid_size_def filter_empty_conv)
qed

theorem tolerance_monotone_witness:
  "(1::int) \<le> 10 \<and> snd (run_xor example_kdb ''a.gds'' ''c.gds'' 1 False) = Inr () \<and>
   snd (run_xor example_kdb ''a.gds'' ''c.gds'' 10 True) = Inr ()"
proof -
  have s: "\<forall>r d. Region_is_empty example_kdb r \<longrightarrow>
      Region_is_empty example_kdb (Region_size example_kdb r d)"
    by (simp add: example_regions grid_size_Nil)
  have m: "\<forall>r d d'. d' \<le> d \<longrightarrow> d < 0 \<longrightarrow>
      Region_is_empty example_kdb (Region_size example_kdb r d) \<longrightarrow>
      Region_is_empty example_kdb (Region_size example_kdb r d')"
    using grid_size_mono by (simp add: example_regions)
  have le: "(1::int) \<le> 10" by simp
  have one: "snd (run_xor example_kdb ''a.gds'' ''c.gds'' 1 False) = Inr ()"
    by (simp add: example_runs(3))
  from tolerance_monotone [OF le s m one, of True] le one show ?thesis
    by simp
qed

subsection \<open>The engine detection\<close>

text \<open>
  C4 (as stated, refuted): with the in-process library missing and both the external
  tool and the polygon-boolean pair at hand, the module binds the polygon-boolean
  comparison, where the order of the specification gives the external process.
\<close>

theorem backend_priority_counterexample:
  "module_engine {External_process, Polygon_boolean} = Polygon_boolean \<and>
   SelectBackend_spec {External_process, Polygon_boolean} = Inr External_process \<and>
   bind_run_xor (detect False True True) = Run_xor_phidl"
  by (simp add: module_engine_def SelectBackend_spec_def bind_run_xor_def detect_def
      engine_of_def)

text \<open>
  C4 (amended): when the module is loaded the name run_xor is bound to exactly one of
  the three comparisons, a function of which imports succeed: the in-process comparison
  when klayout.db imports, else the polygon-boolean comparison when phidl and gdspy
  import, else the external-process comparison. The priority order is in-process,
  polygon-boolean pair, external process, and the external tool itself is never probed.
\<close>

theorem backend_priority:
  "bind_run_xor (detect have_klayout_db have_phidl have_gdspy) =
     (if have_klayout_db then Run_xor
      else if have_phidl \<and> have_gdspy then Run_xor_phidl
      else Run_xor_pya) \<and>
   module_engine available =
     (if In_process \<in> available then In_process
      else if Polygon_boolean \<in> available then Polygon_boolean
      else External_process)"
  by (simp add: module_engine_def bind_run_xor_def detect_def engine_of_def)

theorem backend_priority_witness:
  "bind_run_xor (detect True True True) = Run_xor \<and>
   bind_run_xor (detect False True False) = Run_xor_pya \<and>
   module_engine {In_process, External_process} = In_process"
  using backend_priority [of True True True "{In_process, External_process}"]
    backend_priority [of False True False "{}"]
  by simp

text \<open>
  C5 (as stated, refuted): with no engine at hand the module loads without an error and
  binds the external-process comparison, where the specification's selector fails.
\<close>

theorem no_backend_counterexample:
  "module_engine {} = External_process \<and>
   SelectBackend_spec {} = Inl No_geometry_backend_available \<and>
   bind_run_xor (detect False False False) = Run_xor_pya"
  by (simp add: module_engine_def SelectBackend_spec_def bind_run_xor_def detect_def
      engine_of_def)

text \<open>
  C5 (amended): when neither klayout.db nor the pair phidl and gdspy can be imported, the
  module raises nothing at import: it binds the external-process comparison, whether the
  external tool is on the execution path or not. A missing tool shows only when a
  comparison is called.
\<close>

theorem no_backend_binds_external:
  "(\<not> have_klayout_db \<and> \<not> (have_phidl \<and> have_gdspy) \<longrightarrow>
      bind_run_xor (detect have_klayout_db have_phidl have_gdspy) = Run_xor_pya) \<and>
   (In_process \<notin> available \<and> Polygon_boolean \<notin> available \<longrightarrow>
      module_engine available = External_process)"
  by (simp add: module_engine_def bind_run_xor_def detect_def engine_of_def)

theorem no_backend_binds_external_witness:
  "bind_run_xor (detect False False True) = Run_xor_pya \<and>
   module_engine {External_process} = External_process"
  using no_backend_binds_external [of False False True "{External_process}"]
  by simp

subsection \<open>The external process\<close>

lemma run_xor_pya_argv:
  "run_xor_pya check_output here file1 file2 tolerance verbose =
    (case check_output (pya_argv here file1 file2 tolerance) of
       Inr _ \<Rightarrow> ([], Inr ())
     | Inl (FileNotFoundError args) \<Rightarrow>
         (case args of
            [] \<Rightarrow> ([], Inl IndexError)
          | a # _ \<Rightarrow> ([], Inl (FileNotFoundError [PyStr (str_pyval a @ alias_hint)])))
     | Inl (CalledProcessError rc) \<Rightarrow>
         ([Print_error (CalledProcessError rc)],
          Inl (GeometryDifference (Differences_found file1 file2)))
     | Inl e \<Rightarrow> ([], Inl e))"
  by (simp add: run_xor_pya_def pya_argv_def)

lemma pya_argv_head:
  "\<exists>rest. pya_argv here file1 file2 tolerance = ''klayout'' # ''-b'' # rest"
  by (simp add: pya_argv_def split_space_def)

text \<open>
  C9 (as stated, refuted): with klayout absent from the execution path the call raises
  the FileNotFoundError of the launch itself, its arguments replaced; no other class of
  error is raised.
\<close>

theorem missing_executable_counterexample:
  "run_xor_pya no_klayout ''/lib/lytest'' ''a.gds'' ''b.gds'' 10 False =
     ([], Inl (FileNotFoundError
        [PyStr (''2'' @ CHR 0x0A # ''You need to alias klayout. See README for instructions'')]))"
proof -
  obtain rest where "pya_argv ''/lib/lytest'' ''a.gds'' ''b.gds'' 10 = ''klayout'' # ''-b'' # rest"
    using pya_argv_head by blast
  moreover have "str_int 2 = ''2''"
    by code_simp
  ultimately show ?thesis
    by (simp add: run_xor_pya_argv no_klayout_def str_pyval_def alias_hint_def)
qed

text \<open>
  C9 (amended): when launching the external tool raises FileNotFoundError (the program
  launched is klayout), run_xor_pya raises that same FileNotFoundError again, its
  arguments replaced by one string: the text of the first argument, a line break and
  "You need to alias klayout. See README for instructions". Nothing is printed.
\<close>

theorem missing_executable:
  assumes "check_output (pya_argv here file1 file2 tolerance) =
      Inl (FileNotFoundError (a # rest))"
  shows "run_xor_pya check_output here file1 file2 tolerance verbose =
      ([], Inl (FileNotFoundError
         [PyStr (str_pyval a @ CHR 0x0A #
            ''You need to alias klayout. See README for instructions'')])) \<and>
    hd (pya_argv here file1 file2 tolerance) = ''klayout''"
  using assms pya_argv_head [of here file1 file2 tolerance]
  by (auto simp: run_xor_pya_argv alias_hint_def)

theorem missing_executable_witness:
  "run_xor_pya no_klayout ''/lib/lytest'' ''a.gds'' ''c.gds'' 0 True =
     ([], Inl (FileNotFoundError
        [PyStr (''2'' @ CHR 0x0A # ''You need to alias klayout. See README for instructions'')])) \<and>
   hd (pya_argv ''/lib/lytest'' ''a.gds'' ''c.gds'' 0) = ''klayout''"
proof -
  obtain rest where "pya_argv ''/lib/lytest'' ''a.gds'' ''c.gds'' 0 = ''klayout'' # ''-b'' # rest"
    using pya_argv_head by blast
  then have "no_klayout (pya_argv ''/lib/lytest'' ''a.gds'' ''c.gds'' 0) =
      Inl (FileNotFoundError (PyInt 2 # [PyStr ''No such file or directory'']))"
    by (simp add: no_klayout_def)
  note m = missing_executable [where check_output = no_klayout and a = "PyInt 2", OF this]
  have "str_int 2 = ''2''"
    by code_simp
  with m [of True] show ?thesis
    by (simp add: str_pyval_def)
qed

subsection \<open>The polygon-boolean comparison\<close>

lemma xor_layers_phidl_eq:
  "set layers \<subseteq> fst ` set A \<union> fst ` set B \<Longrightarrow>
   snd (xor_layers_phidl g A B layers st) =
     snd st @ concat (map (layer_polygons g A B) layers)"
proof (induction layers arbitrary: st)
  case Nil
  then show ?case by simp
next
  case (Cons layer layers)
  from Cons.prems have "map_of A layer \<noteq> None \<or> map_of B layer \<noteq> None"
    by (auto simp: map_of_eq_None_iff)
  moreover from Cons.prems have "set layers \<subseteq> fst ` set A \<union> fst ` set B"
    by simp
  ultimately show ?case
    using Cons.IH by (auto simp: layer_polygons_def Let_def split: option.splits)
qed

lemma xor_polygons_phidl_eq:
  "xor_polygons_phidl g A B =
     concat (map (layer_polygons g A B) (remdups (map fst A @ map fst B)))"
  unfolding xor_polygons_phidl_def Let_def
  by (subst xor_layers_phidl_eq) auto

text \<open>
  C10: under the polygon-boolean engine the tolerance and the verbosity have no effect:
  two calls on the same files give the same result whatever these two arguments are.
  Once both files are imported, the call raises GeometryDifference (differences found,
  naming both files) exactly when some layer of either device contributes a polygon,
  that is the XOR of the two polygon lists where both devices have the layer and the
  polygons of the one device that has it otherwise; nothing is shrunk, and no layer,
  top-cell or database-unit error is ever raised.
\<close>

theorem phidl_ignores_tolerance:
  "run_xor_phidl g file1 file2 t1 v1 = run_xor_phidl g file1 file2 t2 v2 \<and>
   (import_gds g file1 = Inr A \<and> import_gds g file2 = Inr B \<longrightarrow>
    run_xor_phidl g file1 file2 t1 v1 =
      ([], if \<exists>layer\<in>fst ` set A \<union> fst ` set B. layer_polygons g A B layer \<noteq> []
           then Inl (GeometryDifference (Differences_found file1 file2))
           else Inr ()))"
proof
  show "run_xor_phidl g file1 file2 t1 v1 = run_xor_phidl g file1 file2 t2 v2"
    by (simp add: run_xor_phidl_def)
next
  show "import_gds g file1 = Inr A \<and> import_gds g file2 = Inr B \<longrightarrow>
    run_xor_phidl g file1 file2 t1 v1 =
      ([], if \<exists>layer\<in>fst ` set A \<union> fst ` set B. layer_polygons g A B layer \<noteq> []
           then Inl (GeometryDifference (Differences_found file1 file2))
           else Inr ())"
    by (auto simp: run_xor_phidl_def xor_polygons_phidl_eq)
qed

theorem phidl_ignores_tolerance_witness:
  "run_xor_phidl example_phidl ''a.gds'' ''c.gds'' 0 False =
     run_xor_phidl example_phidl ''a.gds'' ''c.gds'' 10 True \<and>
   run_xor_phidl example_phidl ''a.gds'' ''c.gds'' 10 True =
     ([], Inl (GeometryDifference (Differences_found ''a.gds'' ''c.gds''))) \<and>
   run_xor_phidl example_phidl ''a.gds'' ''b.gds'' 10 False =
     ([], Inl (GeometryDifference (Differences_found ''a.gds'' ''b.gds''))) \<and>
   run_xor_phidl example_phidl ''a.gds'' ''a_copy.gds'' 0 False = ([], Inr ())"
proof -
  have i: "import_gds example_phidl ''a.gds'' = Inr [((1, 0), [(0, 0)])]"
    "import_gds example_phidl ''a_copy.gds'' = Inr [((1, 0), [(0, 0)])]"
    "import_gds example_phidl ''b.gds'' = Inr [((1, 0), [(0, 0)]), ((2, 0), [(5, 5)])]"
    "import_gds example_phidl ''c.gds'' = Inr []"
    by (simp_all add: example_phidl_def)
  have f: "fast_boolean_xor example_phidl [(0, 0)] [(0, 0)] layer = None" for layer
    by (simp add: example_phidl_def grid_xor_def)
  show ?thesis
    using phidl_ignores_tolerance [of example_phidl "''a.gds''" "''c.gds''" 0 False 10 True
        "[((1, 0), [(0, 0)])]" "[]"]
      phidl_ignores_tolerance [of example_phidl "''a.gds''" "''c.gds''" 10 True 10 True
        "[((1, 0), [(0, 0)])]" "[]"]
      phidl_ignores_tolerance [of example_phidl "''a.gds''" "''b.gds''" 10 False 10 False
        "[((1, 0), [(0, 0)])]" "[((1, 0), [(0, 0)]), ((2, 0), [(5, 5)])]"]
      phidl_ignores_tolerance [of example_phidl "''a.gds''" "''a_copy.gds''" 0 False 0 False
        "[((1, 0), [(0, 0)])]" "[((1, 0), [(0, 0)])]"]
    by (simp add: i f layer_polygons_def)
qed

end
